theory Spec2Isabelle
  imports Complex_Main
begin

section \<open>Data model of the temporal provider\<close>

text \<open>
  The development embeds the class \<open>TemporalProvider\<close> of
  \<open>Modules/Temporal/ViewModel/TemporalProvider.js\<close>.

  JavaScript numbers are IEEE doubles. The current time and the dates of features and of
  transactions are finite numbers, each modelled by the real it denotes, and compared as
  reals. The result of an arithmetic operation is an \<open>fp\<close>: a finite number, an infinity or
  \<open>NaN\<close>. A value that is either a string or \<open>undefined\<close> is a \<open>jsval\<close>; string
  concatenation turns \<open>undefined\<close> into the text \<open>undefined\<close>, as \<open>+\<close> does in the source.
\<close>

datatype jsval = Str string | Undefined

fun toString :: "jsval \<Rightarrow> string" where
  "toString (Str s) = s"
| "toString Undefined = ''undefined''"

text \<open>
  A transaction object, with the fields the provider reads. The two flags are kept as the
  source has them: the provider tests \<open>isPrimary\<close> first and \<open>isAggregate\<close> second, and
  an object with neither flag is possible.
\<close>

datatype transaction =
  Transaction (isPrimary: bool) (isAggregate: bool) (type: string)
    (transactions: "transaction list") (startDate: real) (endDate: real)

text \<open>The entry of \<open>featuresTransacs\<close> for one feature; an absent field is \<open>None\<close>.\<close>

record feature_transacs =
  asSource :: "transaction option"
  asDestination :: "transaction option"

text \<open>The temporal batch table of a tile: three parallel arrays and an object keyed by
  feature identifier.\<close>

record 'id batch_table =
  featureIds :: "'id list"
  startDates :: "real list"
  endDates :: "real list"
  featuresTransacs :: "'id \<Rightarrow> feature_transacs option"

text \<open>
  Reading an array at an index: out of range JavaScript yields \<open>undefined\<close> (\<open>None\<close>), and
  every comparison of a number with \<open>undefined\<close> is false.
\<close>

definition elem_at :: "'a list \<Rightarrow> nat \<Rightarrow> 'a option" where
  "elem_at xs i = (if i < length xs then Some (xs ! i) else None)"

fun cmp :: "(real \<Rightarrow> real \<Rightarrow> bool) \<Rightarrow> real \<Rightarrow> real option \<Rightarrow> bool" where
  "cmp rel a None = False"
| "cmp rel a (Some b) = rel a b"

section \<open>Double arithmetic\<close>

text \<open>
  The value of an arithmetic expression. An operation on finite operands returns its exact
  result rounded to a double, or an infinity when it overflows: this last step is the
  parameter \<open>rnd\<close> of the operations, a function from the exact result to the value
  returned. Every property below is proved for all \<open>rnd\<close>, hence for the rounding of IEEE
  doubles. The two zeros of IEEE are both \<open>Num 0\<close>: no operation used here tells them apart.
\<close>

datatype fp = Num real | PlusInfinity | MinusInfinity | NaN

type_synonym rounding = "real \<Rightarrow> fp"

fun fp_neg :: "fp \<Rightarrow> fp" where
  "fp_neg (Num a) = Num (- a)"
| "fp_neg PlusInfinity = MinusInfinity"
| "fp_neg MinusInfinity = PlusInfinity"
| "fp_neg NaN = NaN"

text \<open>\<open>x + y\<close>: \<open>NaN\<close> if an operand is, or for infinities of opposite signs; an infinite
  operand otherwise wins; two finite operands are added and the sum rounded.\<close>

fun fp_add :: "rounding \<Rightarrow> fp \<Rightarrow> fp \<Rightarrow> fp" where
  "fp_add rnd (Num a) (Num b) = rnd (a + b)"
| "fp_add rnd NaN y = NaN"
| "fp_add rnd x NaN = NaN"
| "fp_add rnd PlusInfinity MinusInfinity = NaN"
| "fp_add rnd MinusInfinity PlusInfinity = NaN"
| "fp_add rnd PlusInfinity y = PlusInfinity"
| "fp_add rnd x PlusInfinity = PlusInfinity"
| "fp_add rnd MinusInfinity y = MinusInfinity"
| "fp_add rnd x MinusInfinity = MinusInfinity"

text \<open>\<open>x - y\<close> is \<open>x + (-y)\<close>, and \<open>x / 2\<close> halves a finite operand and rounds.\<close>

definition fp_sub :: "rounding \<Rightarrow> fp \<Rightarrow> fp \<Rightarrow> fp" where
  "fp_sub rnd x y = fp_add rnd x (fp_neg y)"

fun fp_div2 :: "rounding \<Rightarrow> fp \<Rightarrow> fp" where
  "fp_div2 rnd (Num a) = rnd (a / 2)"
| "fp_div2 rnd x = x"

text \<open>\<open>x <= y\<close> and \<open>x < y\<close>: false as soon as an operand is \<open>NaN\<close>. The source's \<open>x >= y\<close> is
  \<open>fp_le y x\<close> and its \<open>x > y\<close> is \<open>fp_lt y x\<close>.\<close>

fun fp_le :: "fp \<Rightarrow> fp \<Rightarrow> bool" where
  "fp_le (Num a) (Num b) = (a \<le> b)"
| "fp_le NaN y = False"
| "fp_le x NaN = False"
| "fp_le MinusInfinity y = True"
| "fp_le x PlusInfinity = True"
| "fp_le x y = False"

fun fp_lt :: "fp \<Rightarrow> fp \<Rightarrow> bool" where
  "fp_lt (Num a) (Num b) = (a < b)"
| "fp_lt NaN y = False"
| "fp_lt x NaN = False"
| "fp_lt PlusInfinity y = False"
| "fp_lt x MinusInfinity = False"
| "fp_lt MinusInfinity y = True"
| "fp_lt x PlusInfinity = True"

section \<open>Style name of a transaction\<close>

text \<open>
  \<open>getTransactionStyleName(transaction, styleName)\<close>: the type of a primary transaction;
  for an aggregate the accumulator \<open>styleName\<close> (set to \<open>aggregate\<close> when empty) extended,
  for each nested transaction in turn, by \<open>-\<close> and the result of the recursive call on the
  accumulator so far; \<open>undefined\<close> (after a warning) for anything else.
  \<open>nested_loop\<close> is the \<open>for\<close> loop over \<open>transaction.transactions\<close>.
\<close>

fun getTransactionStyleName :: "transaction \<Rightarrow> string \<Rightarrow> jsval"
  and nested_loop :: "transaction list \<Rightarrow> string \<Rightarrow> string" where
  "getTransactionStyleName (Transaction p a ty trs sd ed) styleName =
     (if p then Str ty
      else if a then
        Str (nested_loop trs (if styleName = [] then ''aggregate'' else styleName))
      else Undefined)"
| "nested_loop [] styleName = styleName"
| "nested_loop (x # xs) styleName =
     nested_loop xs (styleName @ ''-'' @ toString (getTransactionStyleName x styleName))"

section \<open>Culling\<close>

definition halfVintage :: real where
  "halfVintage = 1.5"

text \<open>
  The transaction branch of the loop body (the feature has an entry in
  \<open>featuresTransacs\<close>): the labels it pushes, in order. The flag \<open>hasTransac\<close> is threaded
  as in the source; each of the two tests pushes on its own. The half duration
  \<open>(endDate - startDate) / 2\<close> and the bound \<open>startDate + halfDuration\<close> are computed in
  double arithmetic, in the order the source writes them.
\<close>

definition transaction_case :: "rounding \<Rightarrow> real \<Rightarrow> feature_transacs \<Rightarrow> jsval list" where
  "transaction_case rnd currentTime ft =
     (let (hasTransac, pushed) = (False, []);
          (hasTransac, pushed) =
            (case asSource ft of
               None \<Rightarrow> (hasTransac, pushed)
             | Some transacAsSource \<Rightarrow>
                 let transacAsSourceHalfDuration =
                       fp_div2 rnd (fp_sub rnd (Num (endDate transacAsSource))
                                               (Num (startDate transacAsSource)))
                 in if currentTime > startDate transacAsSource \<and>
                       fp_le (Num currentTime)
                         (fp_add rnd (Num (startDate transacAsSource))
                                     transacAsSourceHalfDuration)
                    then (True, pushed @ [getTransactionStyleName transacAsSource ''''])
                    else (hasTransac, pushed));
          (hasTransac, pushed) =
            (case asDestination ft of
               None \<Rightarrow> (hasTransac, pushed)
             | Some transacAsDest \<Rightarrow>
                 let transacAsDestHalfDuration =
                       fp_div2 rnd (fp_sub rnd (Num (endDate transacAsDest))
                                               (Num (startDate transacAsDest)))
                 in if fp_lt (fp_add rnd (Num (startDate transacAsDest))
                                         transacAsDestHalfDuration)
                             (Num currentTime) \<and>
                       currentTime \<le> endDate transacAsDest
                    then (True, pushed @ [getTransactionStyleName transacAsDest ''''])
                    else (hasTransac, pushed))
      in if \<not> hasTransac then pushed @ [Str ''hide''] else pushed)"

text \<open>
  The body of the loop of \<open>culling\<close> at index \<open>i\<close>: the labels pushed for that feature. The
  existence test compares numbers only; the tests \<open>currentTime + halfVintage >=
  startDates[i]\<close> and \<open>currentTime - halfVintage < endDates[i]\<close> compare a date with a sum
  and a difference computed in double arithmetic.
\<close>

definition culling_iteration ::
  "rounding \<Rightarrow> 'id batch_table \<Rightarrow> real \<Rightarrow> nat \<Rightarrow> jsval list" where
  "culling_iteration rnd BT currentTime i =
     (let featureId = featureIds BT ! i in
      if cmp (\<ge>) currentTime (elem_at (startDates BT) i) \<and>
         cmp (\<le>) currentTime (elem_at (endDates BT) i)
      then [Str ''noTransaction'']
      else case featuresTransacs BT featureId of
        Some ft \<Rightarrow> transaction_case rnd currentTime ft
      | None \<Rightarrow>
          if cmp (\<lambda>t s. fp_le (Num s) (fp_add rnd (Num t) (Num halfVintage)))
               currentTime (elem_at (startDates BT) i) \<and>
             cmp (<) currentTime (elem_at (startDates BT) i)
          then [Str ''creation'']
          else if cmp (\<lambda>t e. fp_lt (fp_sub rnd (Num t) (Num halfVintage)) (Num e))
                    currentTime (elem_at (endDates BT) i) \<and>
                  cmp (>) currentTime (elem_at (endDates BT) i)
          then [Str ''demolition'']
          else [Str ''hide''])"

text \<open>The loop \<open>for (let i = 0; i < BT.featureIds.length; i++)\<close> with the array
  \<open>featuresDisplayStates\<close> as accumulator.\<close>

function culling_loop ::
  "rounding \<Rightarrow> 'id batch_table \<Rightarrow> real \<Rightarrow> nat \<Rightarrow> jsval list \<Rightarrow> jsval list" where
  "culling_loop rnd BT currentTime i featuresDisplayStates =
     (if i < length (featureIds BT)
      then culling_loop rnd BT currentTime (Suc i)
             (featuresDisplayStates @ culling_iteration rnd BT currentTime i)
      else featuresDisplayStates)"
  by pat_completeness auto
termination
  by (relation "measure (\<lambda>(rnd, BT, currentTime, i, acc). length (featureIds BT) - i)") auto

definition culling :: "rounding \<Rightarrow> 'id batch_table \<Rightarrow> real \<Rightarrow> jsval list" where
  "culling rnd BT currentTime = culling_loop rnd BT currentTime 0 []"

section \<open>Tile states and their cache\<close>

text \<open>
  The part of the provider the state computation uses: the current time, the batch tables
  of the temporal extension model (\<open>temporalExtensionModel.temporalBatchTables\<close>, an
  absent tile is \<open>None\<close>) and the cache \<open>datedTilesDisplayStates\<close>, a map from dates to
  maps from tile identifiers to arrays of labels.
\<close>

record 'id provider =
  currentTime :: real
  temporalBatchTables :: "nat \<Rightarrow> 'id batch_table option"
  datedTilesDisplayStates :: "real \<Rightarrow> (nat \<Rightarrow> jsval list option) option"

text \<open>
  What \<open>computeFeaturesStates\<close> returns: the empty object literal \<open>{}\<close> it starts from, or
  an array of labels. The object has no \<open>length\<close>, so a loop over its indices runs zero
  times: its sequence of entries is empty.
\<close>

datatype display_states = EmptyObject | StatesArray "jsval list"

fun entries :: "display_states \<Rightarrow> jsval list" where
  "entries EmptyObject = []"
| "entries (StatesArray xs) = xs"

text \<open>
  The observable steps of the two operations, in the order they happen: the probe of the
  cache for a date and a tile (\<open>has\<close>/\<open>get\<close>), the store into it (\<open>set\<close>), a call of
  \<open>culling\<close> for a tile, the two warnings on the console, and a call of
  \<open>tilesManager.setStyle\<close> for a tile, a feature index and a style name.
\<close>

datatype effect =
  CacheRead real nat
| CacheWrite real nat
| CullingCall nat
| WarnNotLoaded nat
| WarnUnregistered jsval
| SetStyle nat nat jsval

text \<open>The probe \<open>has(currentTime) && get(currentTime).has(tileId)\<close>, then \<open>get\<close>.\<close>

definition cache_lookup :: "'id provider \<Rightarrow> nat \<Rightarrow> jsval list option" where
  "cache_lookup this tileId =
     (case datedTilesDisplayStates this (currentTime this) of
        None \<Rightarrow> None
      | Some tiles \<Rightarrow> tiles tileId)"

text \<open>\<open>computeFeaturesStates(tileId)\<close>: the value returned, the provider afterwards and the
  steps taken. The rounding \<open>rnd\<close> is that of the arithmetic of \<open>culling\<close>.\<close>

definition computeFeaturesStates ::
  "rounding \<Rightarrow> 'id provider \<Rightarrow> nat \<Rightarrow> display_states \<times> 'id provider \<times> effect list" where
  "computeFeaturesStates rnd this tileId =
     (if tileId = 0 then (EmptyObject, this, [])
      else case cache_lookup this tileId of
        Some cached \<Rightarrow> (StatesArray cached, this, [CacheRead (currentTime this) tileId])
      | None \<Rightarrow>
          (case temporalBatchTables this tileId of
             Some tileTemporalBT \<Rightarrow>
               let tiles = (case datedTilesDisplayStates this (currentTime this) of
                              None \<Rightarrow> Map.empty
                            | Some m \<Rightarrow> m);
                   featuresDisplayStates = culling rnd tileTemporalBT (currentTime this)
               in (StatesArray featuresDisplayStates,
                   this\<lparr>datedTilesDisplayStates :=
                     (datedTilesDisplayStates this)
                       (currentTime this \<mapsto> tiles(tileId \<mapsto> featuresDisplayStates))\<rparr>,
                   [CacheRead (currentTime this) tileId, CullingCall tileId,
                    CacheWrite (currentTime this) tileId])
           | None \<Rightarrow>
               (EmptyObject, this,
                [CacheRead (currentTime this) tileId, WarnNotLoaded tileId])))"

text \<open>
  The loop of \<open>computeTileState\<close> over the indices of \<open>featuresStates\<close>. The style registry
  of the tiles manager is a parameter: \<open>isStyleRegistered\<close> answers whether a name is
  registered.
\<close>

function tile_state_loop ::
  "(jsval \<Rightarrow> bool) \<Rightarrow> nat \<Rightarrow> jsval list \<Rightarrow> nat \<Rightarrow> effect list \<Rightarrow> effect list" where
  "tile_state_loop isStyleRegistered tileId featuresStates i steps =
     (if i < length featuresStates
      then let featureStyleName = featuresStates ! i in
        tile_state_loop isStyleRegistered tileId featuresStates (Suc i)
          (steps @
            (if isStyleRegistered featureStyleName
             then [SetStyle tileId i featureStyleName]
             else [WarnUnregistered featureStyleName,
                   SetStyle tileId i (Str ''noTransaction'')]))
      else steps)"
  by pat_completeness auto
termination
  by (relation "measure (\<lambda>(r, tileId, featuresStates, i, d). length featuresStates - i)") auto

definition computeTileState ::
  "(jsval \<Rightarrow> bool) \<Rightarrow> rounding \<Rightarrow> 'id provider \<Rightarrow> nat \<Rightarrow> 'id provider \<times> effect list" where
  "computeTileState isStyleRegistered rnd this tileId =
     (let (featuresStates, this', steps) = computeFeaturesStates rnd this tileId
      in (this', tile_state_loop isStyleRegistered tileId (entries featuresStates) 0 steps))"

section \<open>Notions of the specification and example inputs\<close>

text \<open>
  The windows the specification names, to state the properties of \<open>culling\<close> against. The
  bound \<open>startDate + (endDate - startDate) / 2\<close> between the two halves of a transaction is
  the value of that expression in double arithmetic; the first half is
  \<open>(startDate, bound]\<close> and the second half \<open>(bound, endDate]\<close>. Then: whether the source
  (destination) transaction of a feature's record is in its first (second) half, and
  whether the feature at index \<open>i\<close> exists at a time, both dates being present.
\<close>

definition half_bound :: "rounding \<Rightarrow> transaction \<Rightarrow> fp" where
  "half_bound rnd tr =
     fp_add rnd (Num (startDate tr))
       (fp_div2 rnd (fp_sub rnd (Num (endDate tr)) (Num (startDate tr))))"

definition in_first_half :: "rounding \<Rightarrow> real \<Rightarrow> transaction \<Rightarrow> bool" where
  "in_first_half rnd t tr = (startDate tr < t \<and> fp_le (Num t) (half_bound rnd tr))"

definition in_second_half :: "rounding \<Rightarrow> real \<Rightarrow> transaction \<Rightarrow> bool" where
  "in_second_half rnd t tr = (fp_lt (half_bound rnd tr) (Num t) \<and> t \<le> endDate tr)"

definition source_fires :: "rounding \<Rightarrow> real \<Rightarrow> feature_transacs \<Rightarrow> bool" where
  "source_fires rnd t ft =
     (case asSource ft of None \<Rightarrow> False | Some tr \<Rightarrow> in_first_half rnd t tr)"

definition dest_fires :: "rounding \<Rightarrow> real \<Rightarrow> feature_transacs \<Rightarrow> bool" where
  "dest_fires rnd t ft =
     (case asDestination ft of None \<Rightarrow> False | Some tr \<Rightarrow> in_second_half rnd t tr)"

definition exists_at :: "'id batch_table \<Rightarrow> real \<Rightarrow> nat \<Rightarrow> bool" where
  "exists_at BT t i =
     (i < length (startDates BT) \<and> i < length (endDates BT) \<and>
      startDates BT ! i \<le> t \<and> t \<le> endDates BT ! i)"

text \<open>
  The feature at index \<open>j\<close> is outside its lifespan and both windows of its record hold:
  the case in which the loop body pushes two labels.
\<close>

definition double_push :: "rounding \<Rightarrow> 'id batch_table \<Rightarrow> real \<Rightarrow> nat \<Rightarrow> bool" where
  "double_push rnd BT t j =
     (\<not> exists_at BT t j \<and>
      (case featuresTransacs BT (featureIds BT ! j) of
         None \<Rightarrow> False
       | Some ft \<Rightarrow> source_fires rnd t ft \<and> dest_fires rnd t ft))"

text \<open>
  The two windows around the lifespan of a feature without record, with the tests as the
  source writes them, \<open>t + 1.5 >= sd \<and> t < sd\<close> and \<open>t - 1.5 < ed \<and> t > ed\<close>, in
  double arithmetic; and the label they give.
\<close>

definition creation_window :: "rounding \<Rightarrow> real \<Rightarrow> real \<Rightarrow> bool" where
  "creation_window rnd t sd =
     (fp_le (Num sd) (fp_add rnd (Num t) (Num 1.5)) \<and> t < sd)"

definition demolition_window :: "rounding \<Rightarrow> real \<Rightarrow> real \<Rightarrow> bool" where
  "demolition_window rnd t ed =
     (fp_lt (fp_sub rnd (Num t) (Num 1.5)) (Num ed) \<and> ed < t)"

definition vintage_label :: "rounding \<Rightarrow> real \<Rightarrow> real \<Rightarrow> real \<Rightarrow> string" where
  "vintage_label rnd t sd ed =
     (if creation_window rnd t sd then ''creation''
      else if demolition_window rnd t ed then ''demolition''
      else ''hide'')"

text \<open>
  The rounding of a result that is a double: it is returned as it is. In every example
  below the operands and the exact results of the operations are small multiples of
  \<open>1/2\<close>, which are doubles, so the arithmetic of the source computes there what \<open>exact\<close>
  does.
\<close>

definition exact :: rounding where
  "exact x = Num x"

text \<open>
  A batch table with two features. Feature \<open>1\<close> lives on \<open>[12, 20]\<close>; it is the source of a
  demolition on \<open>[8, 14]\<close> (first half \<open>(8, 11]\<close>) and the destination of a modification on
  \<open>[4, 10]\<close> (second half \<open>(7, 10]\<close>). Feature \<open>2\<close> lives on \<open>[0, 30]\<close> and has no record.
\<close>

definition ex_src :: transaction where
  "ex_src = Transaction True False ''demolition'' [] 8 14"

definition ex_dst :: transaction where
  "ex_dst = Transaction True False ''modification'' [] 4 10"

definition ex_table :: "nat batch_table" where
  "ex_table = \<lparr>featureIds = [1, 2], startDates = [12, 0], endDates = [20, 30],
     featuresTransacs = [1 \<mapsto> \<lparr>asSource = Some ex_src, asDestination = Some ex_dst\<rparr>]\<rparr>"

text \<open>The same two features in the other order.\<close>

definition reordered_table :: "nat batch_table" where
  "reordered_table = \<lparr>featureIds = [2, 1], startDates = [0, 12], endDates = [30, 20],
     featuresTransacs = [1 \<mapsto> \<lparr>asSource = Some ex_src, asDestination = Some ex_dst\<rparr>]\<rparr>"

text \<open>
  Three features: feature \<open>1\<close> as in \<open>ex_table\<close>; feature \<open>2\<close>, living on \<open>[12, 20]\<close>, is only
  the source of the demolition; feature \<open>3\<close> lives on \<open>[10, 20]\<close> and has no record.
\<close>

definition shifted_table :: "nat batch_table" where
  "shifted_table = \<lparr>featureIds = [1, 2, 3], startDates = [12, 12, 10],
     endDates = [20, 20, 20],
     featuresTransacs = [1 \<mapsto> \<lparr>asSource = Some ex_src, asDestination = Some ex_dst\<rparr>,
                         2 \<mapsto> \<lparr>asSource = Some ex_src, asDestination = None\<rparr>]\<rparr>"

text \<open>A batch table with one feature of lifespan \<open>[0, 5]\<close> and no transaction record.\<close>

definition lifespan_table :: "nat batch_table" where
  "lifespan_table = \<lparr>featureIds = [7], startDates = [0], endDates = [5],
     featuresTransacs = Map.empty\<rparr>"

text \<open>The style names of a list of nested transactions, each after its separator.\<close>

definition joined :: "string list \<Rightarrow> string" where
  "joined rs = concat (map (\<lambda>r. ''-'' @ r) rs)"

text \<open>
  An aggregate of two primary transactions, active on \<open>[8, 14]\<close>, and an aggregate whose
  second nested transaction is itself an aggregate.
\<close>

definition ex_aggregate :: transaction where
  "ex_aggregate = Transaction False True []
     [Transaction True False ''creation'' [] 8 14,
      Transaction True False ''demolition'' [] 8 14] 8 14"

definition ex_nested :: transaction where
  "ex_nested = Transaction False True []
     [Transaction True False ''b'' [] 0 1,
      Transaction False True [] [Transaction True False ''a'' [] 0 1] 0 1] 0 1"

text \<open>A batch table whose only feature, living on \<open>[12, 20]\<close>, is the source of
  \<open>ex_aggregate\<close>.\<close>

definition aggregate_table :: "nat batch_table" where
  "aggregate_table = \<lparr>featureIds = [1], startDates = [12], endDates = [20],
     featuresTransacs = [1 \<mapsto> \<lparr>asSource = Some ex_aggregate, asDestination = None\<rparr>]\<rparr>"

text \<open>
  A provider at time \<open>9\<close> with an empty cache; the tiles \<open>3\<close> and \<open>5\<close> have their batch
  tables, every other tile has none yet.
\<close>

definition ex_provider :: "nat provider" where
  "ex_provider = \<lparr>currentTime = 9,
     temporalBatchTables = [3 \<mapsto> ex_table, 5 \<mapsto> aggregate_table],
     datedTilesDisplayStates = Map.empty\<rparr>"

text \<open>The registry as \<open>initTransactionsStyles\<close> leaves it: the five names it registers.\<close>

definition default_registry :: "jsval \<Rightarrow> bool" where
  "default_registry name =
     (name \<in> set (map Str
        [''noTransaction'', ''creation'', ''demolition'', ''modification'', ''hide'']))"

text \<open>The calls of \<open>setStyle\<close> among some steps, as (tile, feature index, style name), and
  the names warned about as unregistered, both in order.\<close>

fun style_requests :: "effect list \<Rightarrow> (nat \<times> nat \<times> jsval) list" where
  "style_requests [] = []"
| "style_requests (SetStyle tileId i name # es) = (tileId, i, name) # style_requests es"
| "style_requests (e # es) = style_requests es"

fun style_warnings :: "effect list \<Rightarrow> jsval list" where
  "style_warnings [] = []"
| "style_warnings (WarnUnregistered name # es) = name # style_warnings es"
| "style_warnings (e # es) = style_warnings es"

section \<open>Properties\<close>

text \<open>The recursive equations of the two loops are unfolded by hand, never by the simplifier.\<close>

declare culling_loop.simps [simp del]
declare tile_state_loop.simps [simp del]

lemmas ex_defs = ex_table_def ex_src_def ex_dst_def lifespan_table_def ex_aggregate_def
  aggregate_table_def reordered_table_def shifted_table_def
lemmas eval_defs = culling_iteration_def transaction_case_def elem_at_def halfVintage_def
  in_first_half_def in_second_half_def half_bound_def source_fires_def dest_fires_def
  exists_at_def double_push_def creation_window_def demolition_window_def
  vintage_label_def fp_sub_def exact_def

subsection \<open>The loop of culling\<close>

lemma culling_loop_concat:
  "culling_loop rnd BT t i acc =
     acc @ concat (map (culling_iteration rnd BT t) [i..<length (featureIds BT)])"
proof (induction rnd BT t i acc rule: culling_loop.induct)
  case (1 rnd BT t i acc)
  show ?case
  proof (cases "i < length (featureIds BT)")
    case True
    then show ?thesis
      using "1.IH" by (subst culling_loop.simps) (simp add: upt_conv_Cons)
  next
    case False
    then show ?thesis by (subst culling_loop.simps) simp
  qed
qed

lemma culling_concat:
  "culling rnd BT t =
     concat (map (culling_iteration rnd BT t) [0..<length (featureIds BT)])"
  by (simp add: culling_def culling_loop_concat)

lemma exists_at_cmp:
  "exists_at BT t i \<longleftrightarrow>
     cmp (\<ge>) t (elem_at (startDates BT) i) \<and> cmp (\<le>) t (elem_at (endDates BT) i)"
  by (auto simp: exists_at_def elem_at_def)

lemma culling_iteration_exists:
  "exists_at BT t i \<Longrightarrow> culling_iteration rnd BT t i = [Str ''noTransaction'']"
  by (simp add: culling_iteration_def exists_at_cmp Let_def)

lemma culling_iteration_transac:
  "\<not> exists_at BT t i \<Longrightarrow> featuresTransacs BT (featureIds BT ! i) = Some ft \<Longrightarrow>
     culling_iteration rnd BT t i = transaction_case rnd t ft"
  by (auto simp: culling_iteration_def exists_at_cmp Let_def)

lemma transaction_case_eq:
  "transaction_case rnd t ft =
     (if source_fires rnd t ft
      then [getTransactionStyleName (the (asSource ft)) []] else []) @
     (if dest_fires rnd t ft
      then [getTransactionStyleName (the (asDestination ft)) []] else []) @
     (if \<not> source_fires rnd t ft \<and> \<not> dest_fires rnd t ft then [Str ''hide''] else [])"
  by (auto simp: transaction_case_def source_fires_def dest_fires_def in_first_half_def
      in_second_half_def half_bound_def Let_def split: option.splits)

lemma culling_iteration_plain:
  assumes "i < length (startDates BT)" "i < length (endDates BT)"
    and "\<not> exists_at BT t i" and "featuresTransacs BT (featureIds BT ! i) = None"
  shows "culling_iteration rnd BT t i =
     [Str (vintage_label rnd t (startDates BT ! i) (endDates BT ! i))]"
  using assms
  by (auto simp: culling_iteration_def exists_at_def elem_at_def Let_def vintage_label_def
      creation_window_def demolition_window_def halfVintage_def)

lemma culling_split:
  assumes "i < length (featureIds BT)"
  shows "culling rnd BT t =
     concat (map (culling_iteration rnd BT t) [0..<i]) @ culling_iteration rnd BT t i @
     concat (map (culling_iteration rnd BT t) [Suc i..<length (featureIds BT)])"
proof -
  have "[0..<i + (length (featureIds BT) - i)] =
      [0..<i] @ [i..<i + (length (featureIds BT) - i)]"
    by (rule upt_add_eq_append) simp
  then have "[0..<length (featureIds BT)] = [0..<i] @ [i..<length (featureIds BT)]"
    using assms by simp
  also have "[i..<length (featureIds BT)] = i # [Suc i..<length (featureIds BT)]"
    using assms by (rule upt_conv_Cons)
  finally show ?thesis by (simp add: culling_concat)
qed

lemma aligned_prefix:
  "(\<forall>j<i. length (f j) = 1) \<Longrightarrow> length (concat (map f [0..<i])) = i"
  by (induction i) auto

text \<open>An iteration pushes one label, or two when the feature is outside its lifespan and
  both transaction windows hold; so the result is never shorter than \<open>featureIds\<close>.\<close>

lemma culling_iteration_length:
  "length (culling_iteration rnd BT t i) = (if double_push rnd BT t i then 2 else 1)"
proof (cases "exists_at BT t i")
  case True
  then show ?thesis by (simp add: culling_iteration_exists double_push_def)
next
  case False
  show ?thesis
  proof (cases "featuresTransacs BT (featureIds BT ! i)")
    case None
    then show ?thesis
      using False by (simp add: culling_iteration_def exists_at_cmp Let_def double_push_def)
  next
    case (Some ft)
    then show ?thesis
      using False by (simp add: culling_iteration_transac transaction_case_eq double_push_def)
  qed
qed

lemma length_concat_ge:
  "(\<And>i. 1 \<le> length (f i)) \<Longrightarrow> length is \<le> length (concat (map f is))"
proof (induction "is")
  case Nil
  show ?case by simp
next
  case (Cons a "is")
  have "1 \<le> length (f a)" by (rule Cons.prems)
  moreover have "length is \<le> length (concat (map f is))"
    by (rule Cons.IH) (rule Cons.prems)
  ultimately show ?case by simp
qed

lemma culling_length_ge: "length (featureIds BT) \<le> length (culling rnd BT t)"
proof -
  have "length [0..<length (featureIds BT)] \<le>
      length (concat (map (culling_iteration rnd BT t) [0..<length (featureIds BT)]))"
    by (rule length_concat_ge) (simp add: culling_iteration_length)
  then show ?thesis by (simp add: culling_concat)
qed

text \<open>When no earlier feature pushed two labels, the single label of feature \<open>i\<close> stands at
  index \<open>i\<close> of the result.\<close>

lemma culling_nth_aligned:
  assumes "i < length (featureIds BT)" and "\<forall>j<i. \<not> double_push rnd BT t j"
    and "culling_iteration rnd BT t i = [l]"
  shows "culling rnd BT t ! i = l"
proof -
  have "\<forall>j<i. length (culling_iteration rnd BT t j) = 1"
    using assms(2) by (simp add: culling_iteration_length)
  then have "length (concat (map (culling_iteration rnd BT t) [0..<i])) = i"
    by (rule aligned_prefix)
  then show ?thesis
    using culling_split [OF assms(1), of rnd t] by (simp add: assms(3) nth_append)
qed

text \<open>With exact sums the two windows are \<open>[sd - 1.5, sd)\<close> and \<open>(ed, ed + 1.5)\<close>.\<close>

lemma vintage_windows_exact:
  "creation_window exact t sd \<longleftrightarrow> sd - 1.5 \<le> t \<and> t < sd"
  "demolition_window exact t ed \<longleftrightarrow> ed < t \<and> t < ed + 1.5"
  by (auto simp: creation_window_def demolition_window_def fp_sub_def exact_def)

text \<open>The labels of \<open>ex_table\<close> at time \<open>9\<close> under any rounding that returns the doubles
  \<open>6\<close>, \<open>3\<close>, \<open>11\<close> and \<open>7\<close> as they are.\<close>

lemma ex_table_any_rounding:
  assumes "rnd 6 = Num 6" "rnd 3 = Num 3" "rnd 11 = Num 11" "rnd 7 = Num 7"
  shows "culling rnd ex_table 9 =
     [Str ''demolition'', Str ''modification'', Str ''noTransaction'']"
  using assms
  by (simp add: culling_concat upt_conv_Cons culling_iteration_def transaction_case_def
      elem_at_def fp_sub_def ex_defs)

text \<open>Likewise for \<open>shifted_table\<close> at time \<open>9\<close> and for \<open>lifespan_table\<close> at time \<open>6.5\<close>.\<close>

lemma shifted_table_any_rounding:
  assumes "rnd 6 = Num 6" "rnd 3 = Num 3" "rnd 11 = Num 11" "rnd 7 = Num 7"
    and "rnd 10.5 = Num 10.5" "rnd 7.5 = Num 7.5"
  shows "culling rnd shifted_table 9 =
     [Str ''demolition'', Str ''modification'', Str ''demolition'', Str ''creation'']"
  using assms
  by (simp add: culling_concat upt_conv_Cons culling_iteration_def transaction_case_def
      elem_at_def fp_sub_def halfVintage_def ex_defs)

lemma lifespan_table_any_rounding:
  assumes "rnd 8 = Num 8" "rnd 5 = Num 5"
  shows "culling rnd lifespan_table 6.5 = [Str ''hide'']"
  using assms
  by (simp add: culling_concat upt_conv_Cons culling_iteration_def elem_at_def fp_sub_def
      halfVintage_def ex_defs)

text \<open>
  Where a sum is rounded, the test of the source and the window written with a difference
  part: a rounding that returns \<open>1.5\<close> for \<open>1.5 - 1 / 2 ^ 60\<close>, as the rounding of doubles
  does, puts the time \<open>- 1 / 2 ^ 60\<close> in the creation window of a feature that starts at
  \<open>1.5\<close>, while \<open>1.5 - 1.5 \<le> - 1 / 2 ^ 60\<close> is false.
\<close>

lemma creation_window_rounded:
  assumes "rnd (- (1 / 2 ^ 60) + 1.5) = Num 1.5"
  shows "creation_window rnd (- (1 / 2 ^ 60)) 1.5 \<and> \<not> (1.5 - 1.5 \<le> - (1 / 2 ^ 60 :: real))"
  using assms by (simp add: creation_window_def)

subsection \<open>Claim C1: one label per feature\<close>

text \<open>
  C1 says that \<open>culling\<close> returns exactly one label per entry of \<open>featureIds\<close>, in the same
  order and of the same length. The loop body pushes once in every branch but the
  transaction branch, where the test on the source transaction and the test on the
  destination transaction each push. On \<open>ex_table\<close> at time \<open>9\<close> both tests succeed for
  feature \<open>1\<close>: the table has two features and \<open>culling\<close> returns three labels, so the
  label at index \<open>1\<close>, which \<open>computeTileState\<close> gives to the second feature, is the
  destination label of the first one.
\<close>

theorem culling_length_fails:
  "length (featureIds ex_table) = 2 \<and>
   culling exact ex_table 9 =
     [Str ''demolition'', Str ''modification'', Str ''noTransaction''] \<and>
   length (culling exact ex_table 9) = 3"
  by (simp add: culling_concat upt_conv_Cons eval_defs ex_defs)

subsection \<open>Claim C3: a feature that exists is labelled noTransaction\<close>

text \<open>
  For a feature that exists at the current time the iteration pushes exactly
  \<open>noTransaction\<close>, whatever transaction record it has; the label stands at the index of
  the feature when no earlier feature pushed two labels.
\<close>

lemma existing_feature_iteration:
  assumes "i < length (featureIds BT)" and "exists_at BT t i"
  shows "culling_iteration rnd BT t i = [Str ''noTransaction''] \<and>
     ((\<forall>j<i. \<not> double_push rnd BT t j) \<longrightarrow> culling rnd BT t ! i = Str ''noTransaction'')"
  using culling_nth_aligned [OF assms(1), of rnd t "Str ''noTransaction''"]
    culling_iteration_exists [OF assms(2), of rnd]
  by simp

text \<open>
  C3: for every feature index \<open>i\<close> with \<open>startDates[i] \<le> currentTime \<le> endDates[i]\<close>,
  \<open>culling\<close> gives that feature the label \<open>noTransaction\<close>, whatever transaction record it
  has. In \<open>ex_table\<close> at time \<open>9\<close> the second feature (index \<open>1\<close>, lifespan \<open>[0, 30]\<close>) exists
  and its iteration pushes \<open>noTransaction\<close>; but the first feature has pushed two labels,
  so the label at index \<open>1\<close> of the result, the one \<open>computeTileState\<close> gives to the second
  feature, is \<open>modification\<close>, and \<open>noTransaction\<close> stands at index \<open>2\<close>.
\<close>

theorem existing_feature_shifted:
  "exists_at ex_table 9 1 \<and>
   culling_iteration exact ex_table 9 1 = [Str ''noTransaction''] \<and>
   culling exact ex_table 9 ! 1 = Str ''modification'' \<and>
   culling exact ex_table 9 ! 2 = Str ''noTransaction''"
  by (simp add: culling_concat upt_conv_Cons eval_defs ex_defs)

subsection \<open>Claim C2: a feature with a transaction record\<close>

text \<open>
  C2 as stated: for a feature outside its lifespan that has a transaction record, the label
  is the style name of the source transaction in its first half, that of the destination
  transaction in its second half, the destination's when both windows hold, and \<open>hide\<close>
  when neither holds. When both windows hold the code pushes two labels, the source's and
  then the destination's: on \<open>ex_table\<close> at time \<open>9\<close> the labels of feature \<open>1\<close> are
  \<open>demolition\<close> and \<open>modification\<close>, not \<open>modification\<close> alone, and the label at its index
  is the source's. The labels of the later features are shifted by that: in
  \<open>shifted_table\<close> at time \<open>9\<close> the feature at index \<open>1\<close> is in the first half of its source
  transaction only, its iteration pushes \<open>demolition\<close>, and the label at index \<open>1\<close> of the
  result is \<open>modification\<close>.
\<close>

theorem both_windows_counterexample:
  "\<not> exists_at ex_table 9 0 \<and>
   featuresTransacs ex_table (featureIds ex_table ! 0) =
     Some \<lparr>asSource = Some ex_src, asDestination = Some ex_dst\<rparr> \<and>
   in_first_half exact 9 ex_src \<and> in_second_half exact 9 ex_dst \<and>
   culling_iteration exact ex_table 9 0 =
     [getTransactionStyleName ex_src [], getTransactionStyleName ex_dst []] \<and>
   culling exact ex_table 9 ! 0 = Str ''demolition'' \<and>
   getTransactionStyleName ex_dst [] = Str ''modification'' \<and>
   \<not> exists_at shifted_table 9 1 \<and>
   featuresTransacs shifted_table (featureIds shifted_table ! 1) =
     Some \<lparr>asSource = Some ex_src, asDestination = None\<rparr> \<and>
   getTransactionStyleName ex_src [] = Str ''demolition'' \<and>
   culling_iteration exact shifted_table 9 1 = [Str ''demolition''] \<and>
   culling exact shifted_table 9 ! 1 = Str ''modification''"
  by (simp add: culling_concat upt_conv_Cons eval_defs ex_defs)

text \<open>
  C2 as amended: for a feature at index \<open>i\<close> outside its lifespan that has a transaction
  record, when no feature before it has pushed two labels, and with the bound between the
  two halves of a transaction computed in double arithmetic as the source writes it: when
  the time is in the first half of its source transaction and not in the second half of
  its destination transaction, the label is the style name of the source transaction; when
  it is in the second half of the destination transaction and not in the first half of the
  source transaction, the label is the style name of the destination transaction; when it
  is in neither window (or the transaction is absent), the label is \<open>hide\<close>. In each case
  the iteration pushes exactly that one label, and it is the label at index \<open>i\<close> of the
  result.
\<close>

theorem transaction_labels:
  assumes "i < length (featureIds BT)" and "\<forall>j<i. \<not> double_push rnd BT t j"
    and "\<not> exists_at BT t i"
    and "featuresTransacs BT (featureIds BT ! i) = Some ft"
  shows "(\<forall>src. asSource ft = Some src \<and> in_first_half rnd t src \<and> \<not> dest_fires rnd t ft \<longrightarrow>
            culling_iteration rnd BT t i = [getTransactionStyleName src []] \<and>
            culling rnd BT t ! i = getTransactionStyleName src []) \<and>
         (\<forall>dst. asDestination ft = Some dst \<and> in_second_half rnd t dst \<and>
                \<not> source_fires rnd t ft \<longrightarrow>
            culling_iteration rnd BT t i = [getTransactionStyleName dst []] \<and>
            culling rnd BT t ! i = getTransactionStyleName dst []) \<and>
         (\<not> source_fires rnd t ft \<and> \<not> dest_fires rnd t ft \<longrightarrow>
            culling_iteration rnd BT t i = [Str ''hide''] \<and>
            culling rnd BT t ! i = Str ''hide'')"
proof -
  have it: "culling_iteration rnd BT t i = transaction_case rnd t ft"
    using assms(3,4) by (rule culling_iteration_transac)
  have nth: "culling rnd BT t ! i = l" if "culling_iteration rnd BT t i = [l]" for l
    using assms(1,2) that by (rule culling_nth_aligned)
  have a: "culling_iteration rnd BT t i = [getTransactionStyleName src []]"
    if "asSource ft = Some src" "in_first_half rnd t src" "\<not> dest_fires rnd t ft" for src
    using that by (simp add: it transaction_case_eq source_fires_def)
  have b: "culling_iteration rnd BT t i = [getTransactionStyleName dst []]"
    if "asDestination ft = Some dst" "in_second_half rnd t dst" "\<not> source_fires rnd t ft"
    for dst
    using that by (simp add: it transaction_case_eq dest_fires_def)
  have c: "culling_iteration rnd BT t i = [Str ''hide'']"
    if "\<not> source_fires rnd t ft" "\<not> dest_fires rnd t ft"
    using that by (simp add: it transaction_case_eq)
  show ?thesis
    using a b c nth by blast
qed

text \<open>The second feature of \<open>reordered_table\<close> is outside its lifespan at the times \<open>10.5\<close>
  (first half of its source transaction only), \<open>7.5\<close> (second half of its destination
  transaction only) and \<open>5\<close> (neither); the first feature exists at these times.\<close>

theorem transaction_labels_witness:
  "culling exact reordered_table (21/2) ! 1 = Str ''demolition'' \<and>
   culling exact reordered_table (15/2) ! 1 = Str ''modification'' \<and>
   culling exact reordered_table 5 ! 1 = Str ''hide'' \<and>
   culling_iteration exact reordered_table (21/2) 1 = [Str ''demolition''] \<and>
   culling_iteration exact reordered_table (15/2) 1 = [Str ''modification''] \<and>
   culling_iteration exact reordered_table 5 1 = [Str ''hide'']"
proof -
  let ?ft = "\<lparr>asSource = Some ex_src, asDestination = Some ex_dst\<rparr>"
  have a: "(1::nat) < length (featureIds reordered_table)" by (simp add: ex_defs)
  have r: "featuresTransacs reordered_table (featureIds reordered_table ! 1) = Some ?ft"
    by (simp add: ex_defs)
  have d: "\<forall>j<1::nat. \<not> double_push exact reordered_table (21/2) j"
    "\<forall>j<1::nat. \<not> double_push exact reordered_table (15/2) j"
    "\<forall>j<1::nat. \<not> double_push exact reordered_table 5 j"
    by (simp_all add: ex_defs double_push_def exists_at_def)
  have b: "\<not> exists_at reordered_table (21/2) 1" "\<not> exists_at reordered_table (15/2) 1"
    "\<not> exists_at reordered_table 5 1"
    by (simp_all add: ex_defs exists_at_def)
  have s1: "asSource ?ft = Some ex_src \<and> in_first_half exact (21/2) ex_src \<and>
      \<not> dest_fires exact (21/2) ?ft"
    by (simp add: eval_defs ex_defs)
  have s2: "asDestination ?ft = Some ex_dst \<and> in_second_half exact (15/2) ex_dst \<and>
      \<not> source_fires exact (15/2) ?ft"
    by (simp add: eval_defs ex_defs)
  have s3: "\<not> source_fires exact 5 ?ft \<and> \<not> dest_fires exact 5 ?ft"
    by (simp add: eval_defs ex_defs)
  have n1: "getTransactionStyleName ex_src [] = Str ''demolition''" by (simp add: ex_defs)
  have n2: "getTransactionStyleName ex_dst [] = Str ''modification''" by (simp add: ex_defs)
  show ?thesis
    using transaction_labels [OF a d(1) b(1) r] transaction_labels [OF a d(2) b(2) r]
      transaction_labels [OF a d(3) b(3) r] s1 s2 s3 n1 n2
    by simp
qed

subsection \<open>Claim C4: a feature without transaction record\<close>

text \<open>
  C4 as stated gives \<open>demolition\<close> on \<open>endDates[i] < currentTime \<le> endDates[i] + 1.5\<close>. The
  source tests \<open>currentTime - halfVintage < endDates[i]\<close>, a strict comparison: at the end
  of the window, \<open>6.5\<close> for the lifespan \<open>[0, 5]\<close>, the label is \<open>hide\<close>. And the label of a
  feature is shifted when an earlier feature pushed two labels: in \<open>shifted_table\<close> at time
  \<open>9\<close> the feature at index \<open>2\<close>, of lifespan \<open>[10, 20]\<close> and without record, is in its
  creation window, its iteration pushes \<open>creation\<close>, and the label at index \<open>2\<close> of the
  result is \<open>demolition\<close>.
\<close>

theorem demolition_bound_counterexample:
  "featuresTransacs lifespan_table (featureIds lifespan_table ! 0) = None \<and>
   \<not> exists_at lifespan_table 6.5 0 \<and>
   endDates lifespan_table ! 0 < 6.5 \<and> 6.5 \<le> endDates lifespan_table ! 0 + 1.5 \<and>
   culling_iteration exact lifespan_table 6.5 0 = [Str ''hide''] \<and>
   culling exact lifespan_table 6.5 = [Str ''hide''] \<and>
   featuresTransacs shifted_table (featureIds shifted_table ! 2) = None \<and>
   \<not> exists_at shifted_table 9 2 \<and>
   startDates shifted_table ! 2 - 1.5 \<le> 9 \<and> 9 < startDates shifted_table ! 2 \<and>
   culling_iteration exact shifted_table 9 2 = [Str ''creation''] \<and>
   culling exact shifted_table 9 ! 2 = Str ''demolition''"
  by (simp add: culling_concat upt_conv_Cons eval_defs ex_defs)

text \<open>
  C4 as amended: for a feature at index \<open>i\<close> with no transaction record and a time outside
  its lifespan, when no feature before it has pushed two labels, and with sums and
  differences computed in double arithmetic: the label is \<open>creation\<close> if
  \<open>currentTime + 1.5 >= startDates[i]\<close> and \<open>currentTime < startDates[i]\<close>, else \<open>demolition\<close>
  if \<open>currentTime - 1.5 < endDates[i]\<close> and \<open>currentTime > endDates[i]\<close>, else \<open>hide\<close>; the
  iteration pushes exactly that label and it is the label at index \<open>i\<close> of the result.
  (With exact sums these are the windows \<open>[startDates[i] - 1.5, startDates[i])\<close> and
  \<open>(endDates[i], endDates[i] + 1.5)\<close>, see \<open>vintage_windows_exact\<close>.) For the lifespan
  \<open>[0, 5]\<close> the times \<open>-1\<close>, \<open>6\<close>, \<open>-2\<close> and \<open>7\<close> give \<open>creation\<close>, \<open>demolition\<close>, \<open>hide\<close> and
  \<open>hide\<close>.
\<close>

theorem vintage_labels:
  assumes "i < length (featureIds BT)" and "\<forall>j<i. \<not> double_push rnd BT t j"
    and "i < length (startDates BT)" and "i < length (endDates BT)"
    and "\<not> exists_at BT t i" and "featuresTransacs BT (featureIds BT ! i) = None"
  shows "culling_iteration rnd BT t i =
       [Str (vintage_label rnd t (startDates BT ! i) (endDates BT ! i))] \<and>
     culling rnd BT t ! i = Str (vintage_label rnd t (startDates BT ! i) (endDates BT ! i))"
proof -
  have it: "culling_iteration rnd BT t i =
       [Str (vintage_label rnd t (startDates BT ! i) (endDates BT ! i))]"
    using assms(3-6) by (rule culling_iteration_plain)
  with assms(1,2) show ?thesis
    by (simp add: culling_nth_aligned)
qed

text \<open>The four times of the claim on \<open>lifespan_table\<close>, and the second feature of
  \<open>ex_table\<close> (lifespan \<open>[0, 30]\<close>) at time \<open>31\<close>, after a first feature that pushed one
  label.\<close>

theorem vintage_labels_witness:
  "culling exact lifespan_table (-1) ! 0 = Str ''creation'' \<and>
   culling exact lifespan_table 6 ! 0 = Str ''demolition'' \<and>
   culling exact lifespan_table (-2) ! 0 = Str ''hide'' \<and>
   culling exact lifespan_table 7 ! 0 = Str ''hide'' \<and>
   culling exact ex_table 31 ! 1 = Str ''demolition'' \<and>
   culling_iteration exact ex_table 31 1 = [Str ''demolition'']"
proof -
  have a: "(0::nat) < length (featureIds lifespan_table)"
    "(0::nat) < length (startDates lifespan_table)"
    "(0::nat) < length (endDates lifespan_table)"
    by (simp_all add: ex_defs)
  have r: "featuresTransacs lifespan_table (featureIds lifespan_table ! 0) = None"
    by (simp add: ex_defs)
  have d: "\<forall>j<0::nat. \<not> double_push exact lifespan_table t j" for t
    by simp
  have b: "\<not> exists_at lifespan_table (-1) 0" "\<not> exists_at lifespan_table 6 0"
    "\<not> exists_at lifespan_table (-2) 0" "\<not> exists_at lifespan_table 7 0"
    by (simp_all add: ex_defs exists_at_def)
  have a': "(1::nat) < length (featureIds ex_table)"
    "(1::nat) < length (startDates ex_table)" "(1::nat) < length (endDates ex_table)"
    by (simp_all add: ex_defs)
  have r': "featuresTransacs ex_table (featureIds ex_table ! 1) = None"
    by (simp add: ex_defs)
  have d': "\<forall>j<1::nat. \<not> double_push exact ex_table 31 j"
    by (simp add: eval_defs ex_defs)
  have b': "\<not> exists_at ex_table 31 1"
    by (simp add: ex_defs exists_at_def)
  show ?thesis
    using vintage_labels [OF a(1) d a(2,3) b(1) r] vintage_labels [OF a(1) d a(2,3) b(2) r]
      vintage_labels [OF a(1) d a(2,3) b(3) r] vintage_labels [OF a(1) d a(2,3) b(4) r]
      vintage_labels [OF a'(1) d' a'(2,3) b' r']
    by (simp add: eval_defs ex_defs)
qed

subsection \<open>Style names: helper lemmas\<close>

lemma joined_simps [simp]:
  "joined [] = []" "joined (r # rs) = ''-'' @ r @ joined rs"
  by (simp_all add: joined_def)

lemma primary_name: "isPrimary tr \<Longrightarrow> getTransactionStyleName tr s = Str (type tr)"
  by (cases tr) simp


lemma nested_loop_primaries:
  "\<forall>x\<in>set xs. isPrimary x \<Longrightarrow> nested_loop xs s = s @ joined (map type xs)"
  by (induction xs arbitrary: s) (simp_all add: primary_name)

text \<open>An aggregate nested after another transaction receives the accumulator: its part of
  the name repeats what precedes it.\<close>

lemma nested_aggregate_name:
  "getTransactionStyleName ex_nested [] = Str ''aggregate-b-aggregate-b-a''"
  by (simp add: ex_nested_def)

subsection \<open>Claim C5: resolution of a style name\<close>



subsection \<open>Claim C10: an aggregate of primary transactions\<close>

text \<open>
  C10: for an aggregate whose nested transactions are all primary, of types \<open>t1, ..., tn\<close>,
  the resolution started with the empty accumulator returns exactly
  \<open>aggregate-t1-...-tn\<close>: the prefix, then each type once after its separator.
\<close>

theorem flat_aggregate_name:
  assumes "\<not> isPrimary tr" and "isAggregate tr"
    and "\<forall>x\<in>set (transactions tr). isPrimary x"
  shows "getTransactionStyleName tr [] =
     Str (''aggregate'' @ joined (map type (transactions tr)))"
  using assms by (cases tr) (simp add: nested_loop_primaries)

theorem flat_aggregate_name_witness:
  "transactions ex_aggregate \<noteq> [] \<and>
   getTransactionStyleName ex_aggregate [] = Str ''aggregate-creation-demolition''"
proof -
  have a: "\<not> isPrimary ex_aggregate" "isAggregate ex_aggregate"
    "\<forall>x\<in>set (transactions ex_aggregate). isPrimary x"
    by (simp_all add: ex_aggregate_def)
  show ?thesis using flat_aggregate_name [OF a] by (simp add: ex_aggregate_def)
qed

subsection \<open>Claim C6: the root tile\<close>

text \<open>
  C6: for the tile identifier \<open>0\<close>, \<open>computeFeaturesStates\<close> returns at once an empty result
  (the empty object, which has no entry), for every provider: whatever the current time,
  the cache and the batch tables. The provider is unchanged and no step is taken: the cache
  is neither probed nor written.
\<close>

theorem root_tile:
  "computeFeaturesStates rnd this 0 = (EmptyObject, this, []) \<and>
   entries (fst (computeFeaturesStates rnd this 0)) = []"
  by (simp add: computeFeaturesStates_def)

subsection \<open>Claim C8: a tile whose batch table is not loaded\<close>

text \<open>
  C8: for a tile other than the root, with no cached entry for the current time and no
  batch table in the temporal extension model, \<open>computeFeaturesStates\<close> warns and returns an
  empty result; \<open>culling\<close> is not called and the provider is unchanged.
\<close>

theorem missing_batch_table:
  assumes "tileId \<noteq> 0" and "cache_lookup this tileId = None"
    and "temporalBatchTables this tileId = None"
  shows "computeFeaturesStates rnd this tileId =
       (EmptyObject, this, [CacheRead (currentTime this) tileId, WarnNotLoaded tileId]) \<and>
     entries (fst (computeFeaturesStates rnd this tileId)) = []"
  using assms by (simp add: computeFeaturesStates_def)

theorem missing_batch_table_witness:
  "computeFeaturesStates exact ex_provider 4 =
     (EmptyObject, ex_provider, [CacheRead 9 4, WarnNotLoaded 4])"
proof -
  have a: "(4::nat) \<noteq> 0" by simp
  have b: "cache_lookup ex_provider 4 = None" by (simp add: cache_lookup_def ex_provider_def)
  have c: "temporalBatchTables ex_provider 4 = None" by (simp add: ex_provider_def)
  have d: "currentTime ex_provider = 9" by (simp add: ex_provider_def)
  show ?thesis using missing_batch_table [OF a b c] d by simp
qed

subsection \<open>Claim C7: repeated calls\<close>

text \<open>
  C7: a second call of \<open>computeFeaturesStates\<close> with the same tile, on the provider the first
  call left (same current time), returns the same value as the first and leaves the
  provider as it is, so every later call does the same; it never calls \<open>culling\<close> nor
  writes the cache; and when the first call stored a cache entry, it is a cache hit: its
  only step is the probe of the cache.
\<close>

theorem repeated_call:
  assumes "computeFeaturesStates rnd this tileId = (r1, s1, e1)"
  shows "fst (computeFeaturesStates rnd s1 tileId) = r1 \<and>
     fst (snd (computeFeaturesStates rnd s1 tileId)) = s1 \<and>
     CullingCall tileId \<notin> set (snd (snd (computeFeaturesStates rnd s1 tileId))) \<and>
     CacheWrite (currentTime this) tileId \<notin> set (snd (snd (computeFeaturesStates rnd s1 tileId))) \<and>
     (CacheWrite (currentTime this) tileId \<in> set e1 \<longrightarrow>
        computeFeaturesStates rnd s1 tileId = (r1, s1, [CacheRead (currentTime this) tileId]))"
  using assms
  by (auto simp: computeFeaturesStates_def cache_lookup_def Let_def
      split: if_splits option.splits)

lemma ex_first_call:
  "computeFeaturesStates exact ex_provider 3 =
     (StatesArray [Str ''demolition'', Str ''modification'', Str ''noTransaction''],
      ex_provider\<lparr>datedTilesDisplayStates :=
        [9 \<mapsto> [3 \<mapsto> [Str ''demolition'', Str ''modification'', Str ''noTransaction'']]]\<rparr>,
      [CacheRead 9 3, CullingCall 3, CacheWrite 9 3])"
proof -
  have v: "culling exact ex_table 9 =
      [Str ''demolition'', Str ''modification'', Str ''noTransaction'']"
    by (simp add: culling_concat upt_conv_Cons eval_defs ex_defs)
  show ?thesis
    using v by (simp add: computeFeaturesStates_def cache_lookup_def ex_provider_def Let_def)
qed

theorem repeated_call_witness:
  "CacheWrite 9 3 \<in> set (snd (snd (computeFeaturesStates exact ex_provider 3))) \<and>
   computeFeaturesStates exact (fst (snd (computeFeaturesStates exact ex_provider 3))) 3 =
     (StatesArray [Str ''demolition'', Str ''modification'', Str ''noTransaction''],
      fst (snd (computeFeaturesStates exact ex_provider 3)), [CacheRead 9 3])"
proof -
  have t: "currentTime ex_provider = 9" by (simp add: ex_provider_def)
  show ?thesis
    using repeated_call [OF ex_first_call] t by (simp add: ex_first_call)
qed

subsection \<open>Claim C9: styling the features of a tile\<close>

lemma tile_state_loop_concat:
  "tile_state_loop reg tileId fs i steps =
     steps @ concat (map (\<lambda>i. if reg (fs ! i) then [SetStyle tileId i (fs ! i)]
                                else [WarnUnregistered (fs ! i),
                                      SetStyle tileId i (Str ''noTransaction'')])
                      [i..<length fs])"
proof (induction reg tileId fs i steps rule: tile_state_loop.induct)
  case (1 reg tileId fs i steps)
  show ?case
  proof (cases "i < length fs")
    case True
    then show ?thesis
      using "1.IH" by (subst tile_state_loop.simps) (simp add: upt_conv_Cons Let_def)
  next
    case False
    then show ?thesis by (subst tile_state_loop.simps) simp
  qed
qed

lemma style_requests_append [simp]:
  "style_requests (xs @ ys) = style_requests xs @ style_requests ys"
  by (induction xs rule: style_requests.induct) simp_all

lemma style_warnings_append [simp]:
  "style_warnings (xs @ ys) = style_warnings xs @ style_warnings ys"
  by (induction xs rule: style_warnings.induct) simp_all

lemma computeFeaturesStates_no_style:
  "style_requests (snd (snd (computeFeaturesStates rnd this tileId))) = [] \<and>
   style_warnings (snd (snd (computeFeaturesStates rnd this tileId))) = []"
  by (simp add: computeFeaturesStates_def Let_def split: option.splits)

lemma requests_of_loop:
  "style_requests (concat (map (\<lambda>i. if reg (fs ! i) then [SetStyle tileId i (fs ! i)]
                                else [WarnUnregistered (fs ! i),
                                      SetStyle tileId i (Str ''noTransaction'')]) is)) =
   map (\<lambda>i. (tileId, i, if reg (fs ! i) then fs ! i else Str ''noTransaction'')) is"
  by (induction "is") simp_all

lemma warnings_of_loop:
  "style_warnings (concat (map (\<lambda>i. if reg (fs ! i) then [SetStyle tileId i (fs ! i)]
                                else [WarnUnregistered (fs ! i),
                                      SetStyle tileId i (Str ''noTransaction'')]) is)) =
   filter (\<lambda>l. \<not> reg l) (map ((!) fs) is)"
  by (induction "is") simp_all

text \<open>
  C9: \<open>computeTileState\<close> takes the labels from \<open>computeFeaturesStates\<close> (whose provider it
  keeps) and, for each index \<open>i\<close> of them in order, calls \<open>setStyle\<close> for the tile and \<open>i\<close>
  with the label when it is registered, and otherwise warns about the label and calls
  \<open>setStyle\<close> with \<open>noTransaction\<close>. So the calls of \<open>setStyle\<close> are one per index, with the
  label or \<open>noTransaction\<close>, and the warnings are the unregistered labels.
\<close>

theorem tile_state_styles:
  "fst (computeTileState reg rnd this tileId) = fst (snd (computeFeaturesStates rnd this tileId)) \<and>
   snd (computeTileState reg rnd this tileId) =
     snd (snd (computeFeaturesStates rnd this tileId)) @
     concat (map (\<lambda>i. if reg (entries (fst (computeFeaturesStates rnd this tileId)) ! i)
                       then [SetStyle tileId i
                               (entries (fst (computeFeaturesStates rnd this tileId)) ! i)]
                       else [WarnUnregistered
                               (entries (fst (computeFeaturesStates rnd this tileId)) ! i),
                             SetStyle tileId i (Str ''noTransaction'')])
               [0..<length (entries (fst (computeFeaturesStates rnd this tileId)))]) \<and>
   style_requests (snd (computeTileState reg rnd this tileId)) =
     map (\<lambda>i. (tileId, i,
            if reg (entries (fst (computeFeaturesStates rnd this tileId)) ! i)
            then entries (fst (computeFeaturesStates rnd this tileId)) ! i
            else Str ''noTransaction''))
       [0..<length (entries (fst (computeFeaturesStates rnd this tileId)))] \<and>
   style_warnings (snd (computeTileState reg rnd this tileId)) =
     filter (\<lambda>l. \<not> reg l) (entries (fst (computeFeaturesStates rnd this tileId)))"
proof -
  obtain fs s1 steps where c: "computeFeaturesStates rnd this tileId = (fs, s1, steps)"
    by (metis prod_cases3)
  have n: "style_requests steps = []" "style_warnings steps = []"
    using computeFeaturesStates_no_style [of rnd this tileId] by (simp_all add: c)
  show ?thesis
    by (simp add: computeTileState_def c tile_state_loop_concat n requests_of_loop
        warnings_of_loop map_nth cong: if_cong)
qed

lemma ex_aggregate_call:
  "computeFeaturesStates exact ex_provider 5 =
     (StatesArray [Str ''aggregate-creation-demolition''],
      ex_provider\<lparr>datedTilesDisplayStates :=
        [9 \<mapsto> [5 \<mapsto> [Str ''aggregate-creation-demolition'']]]\<rparr>,
      [CacheRead 9 5, CullingCall 5, CacheWrite 9 5])"
proof -
  have v: "culling exact aggregate_table 9 = [Str ''aggregate-creation-demolition'']"
    by (simp add: culling_concat upt_conv_Cons eval_defs ex_defs)
  show ?thesis
    using v by (simp add: computeFeaturesStates_def cache_lookup_def ex_provider_def Let_def)
qed

text \<open>With the five default styles, the labels of tile \<open>3\<close> are all registered and the
  aggregate label of tile \<open>5\<close> is not.\<close>

theorem tile_state_styles_witness:
  "style_requests (snd (computeTileState default_registry exact ex_provider 3)) =
     [(3, 0, Str ''demolition''), (3, 1, Str ''modification''), (3, 2, Str ''noTransaction'')] \<and>
   style_warnings (snd (computeTileState default_registry exact ex_provider 3)) = [] \<and>
   style_requests (snd (computeTileState default_registry exact ex_provider 5)) =
     [(5, 0, Str ''noTransaction'')] \<and>
   style_warnings (snd (computeTileState default_registry exact ex_provider 5)) =
     [Str ''aggregate-creation-demolition'']"
  using tile_state_styles [of default_registry exact ex_provider 3]
    tile_state_styles [of default_registry exact ex_provider 5]
  by (simp add: ex_first_call ex_aggregate_call default_registry_def upt_conv_Cons)

end
